theory Spec2Isabelle
  imports Complex_Main "HOL-Library.Sublist"
begin

section \<open>JavaScript strings and values\<close>

text \<open>
  Strings are character lists. The letter-case conversion and the character classes of
  the regular expressions are the ASCII ones: the prompts and scripts of the pipeline
  are modelled as ASCII text.
\<close>

definition isDigit :: "char \<Rightarrow> bool" where
  "isDigit c = (let n = (of_char c :: nat) in 48 \<le> n \<and> n \<le> 57)"

definition isUpper :: "char \<Rightarrow> bool" where
  "isUpper c = (let n = (of_char c :: nat) in 65 \<le> n \<and> n \<le> 90)"

definition isLower :: "char \<Rightarrow> bool" where
  "isLower c = (let n = (of_char c :: nat) in 97 \<le> n \<and> n \<le> 122)"

text \<open>The class \<^verbatim>\<open>\s\<close>: tab, line feed, vertical tab, form feed, carriage return, space.\<close>

definition isSpace :: "char \<Rightarrow> bool" where
  "isSpace c = (let n = (of_char c :: nat) in (9 \<le> n \<and> n \<le> 13) \<or> n = 32)"

definition lowerChar :: "char \<Rightarrow> char" where
  "lowerChar c = (if isUpper c then char_of ((of_char c :: nat) + 32) else c)"

definition upperChar :: "char \<Rightarrow> char" where
  "upperChar c = (if isLower c then char_of ((of_char c :: nat) - 32) else c)"

definition toLowerCase :: "string \<Rightarrow> string" where
  "toLowerCase s = map lowerChar s"

definition toUpperCase :: "string \<Rightarrow> string" where
  "toUpperCase s = map upperChar s"

text \<open>\<^verbatim>\<open>s.startsWith(pat)\<close> and \<^verbatim>\<open>s.includes(pat)\<close> (named includesStr here).\<close>

fun startsWith :: "string \<Rightarrow> string \<Rightarrow> bool" where
  "startsWith s [] = True"
| "startsWith [] (p # ps) = False"
| "startsWith (c # cs) (p # ps) = (c = p \<and> startsWith cs ps)"

fun includesStr :: "string \<Rightarrow> string \<Rightarrow> bool" where
  "includesStr [] pat = (pat = [])"
| "includesStr (c # cs) pat = (startsWith (c # cs) pat \<or> includesStr cs pat)"

text \<open>\<^verbatim>\<open>xs.join(sep)\<close> on an array of strings.\<close>

fun join :: "string \<Rightarrow> string list \<Rightarrow> string" where
  "join sep [] = []"
| "join sep [x] = x"
| "join sep (x # y # ys) = x @ sep @ join sep (y # ys)"

text \<open>\<^verbatim>\<open>s.charAt(0).toUpperCase() + s.slice(1)\<close>.\<close>

definition capitalize :: "string \<Rightarrow> string" where
  "capitalize s = toUpperCase (take 1 s) @ drop 1 s"

text \<open>Decimal rendering of an array length, as a template literal interpolates it.\<close>

definition digitChar :: "nat \<Rightarrow> char" where
  "digitChar d = char_of (48 + d)"

fun showNat :: "nat \<Rightarrow> string" where
  "showNat n = (if n < 10 then [digitChar n] else showNat (n div 10) @ [digitChar (n mod 10)])"

declare showNat.simps [simp del]

text \<open>
  A value of type \<^verbatim>\<open>number | string\<close>. Numbers are exact rationals (no rounding, no NaN,
  no infinities); a missing key of a parameter bag (\<^verbatim>\<open>undefined\<close>) is \<open>None\<close>. The
  conversion of a number to text belongs to the JavaScript runtime and is a parameter
  \<open>ns\<close> of the functions that interpolate numbers.
\<close>

datatype jsval = JNum rat | JStr string

type_synonym params = "string \<rightharpoonup> jsval"

text \<open>Interpolation \<^verbatim>\<open>${v}\<close> of a looked-up parameter in a template literal.\<close>

fun interp :: "(rat \<Rightarrow> string) \<Rightarrow> jsval option \<Rightarrow> string" where
  "interp ns None = ''undefined''"
| "interp ns (Some (JNum n)) = ns n"
| "interp ns (Some (JStr s)) = s"

text \<open>\<^verbatim>\<open>v || d\<close>: the default replaces every falsy value (undefined, 0, the empty string).\<close>

fun orDefault :: "jsval option \<Rightarrow> jsval \<Rightarrow> jsval" where
  "orDefault None d = d"
| "orDefault (Some (JNum n)) d = (if n = 0 then d else JNum n)"
| "orDefault (Some (JStr s)) d = (if s = [] then d else JStr s)"

section \<open>Schema\<close>

datatype ConstraintType = Dimension | Material | Tolerance | Relationship

record DesignConstraint =
  constraint_type :: ConstraintType
  parameter :: string
  constraint_value :: jsval
  constraint_unit :: "string option"

record DesignIntent =
  prompt :: string
  contextId :: string
  constraints :: "DesignConstraint list option"

datatype PrimitiveType = Cube | Sphere | Cylinder | Cone | Torus

fun primitiveTypeName :: "PrimitiveType \<Rightarrow> string" where
  "primitiveTypeName Cube = ''cube''"
| "primitiveTypeName Sphere = ''sphere''"
| "primitiveTypeName Cylinder = ''cylinder''"
| "primitiveTypeName Cone = ''cone''"
| "primitiveTypeName Torus = ''torus''"

record Position =
  pos_x :: rat
  pos_y :: rat
  pos_z :: rat

record Rotation =
  rot_x :: rat
  rot_y :: rat
  rot_z :: rat

record PrimitiveShape =
  prim_id :: string
  prim_type :: PrimitiveType
  prim_parameters :: params
  position :: "Position option"
  rotation :: "Rotation option"

datatype OperationType = OpUnion | OpDifference | OpIntersection | OpFillet | OpChamfer

fun operationTypeName :: "OperationType \<Rightarrow> string" where
  "operationTypeName OpUnion = ''union''"
| "operationTypeName OpDifference = ''difference''"
| "operationTypeName OpIntersection = ''intersection''"
| "operationTypeName OpFillet = ''fillet''"
| "operationTypeName OpChamfer = ''chamfer''"

record Operation =
  op_type :: OperationType
  targetIds :: "string list"
  op_parameters :: "params option"

datatype Units = MM | CM | INCH

record DesignMetadata =
  md_name :: string
  md_description :: string
  author :: string
  createdAt :: string
  units :: Units

record StructuredDesign =
  primitives :: "PrimitiveShape list"
  operations :: "Operation list"
  metadata :: DesignMetadata

record FreeCADScript =
  code :: string
  script_imports :: "string list"
  safeToExecute :: bool

record ExecutionResult =
  success :: bool
  objectIds :: "string list option"
  errorMessage :: "string option"
  warnings :: "string list option"
  renderUrl :: "string option"

datatype Status = StSuccess | StError | StWarning | StInfo | StClarification

datatype ActionType = Clarify | Modify | Regenerate | Accept

text \<open>The optional \<^verbatim>\<open>parameters\<close> of a suggested action is never set by the pipeline.\<close>

record SuggestedAction =
  action_type :: ActionType
  description :: string

record UserFeedback =
  status :: Status
  message :: string
  details :: "string option"
  suggestedActions :: "SuggestedAction list option"

section \<open>Feedback collector\<close>

text \<open>\<^verbatim>\<open>result.warnings && result.warnings.length > 0\<close>\<close>

definition hasWarnings :: "ExecutionResult \<Rightarrow> bool" where
  "hasWarnings result = (case warnings result of None \<Rightarrow> False | Some ws \<Rightarrow> length ws > 0)"

definition getSuggestedActionsForSuccess :: "ExecutionResult \<Rightarrow> SuggestedAction list" where
  "getSuggestedActionsForSuccess result =
     (let actions = [\<lparr>action_type = Accept, description = ''Use this model''\<rparr>] in
      if hasWarnings result
      then actions @ [\<lparr>action_type = Modify, description = ''Modify design to address warnings''\<rparr>]
      else actions)"

definition getSuggestedActionsForFailure :: "ExecutionResult \<Rightarrow> SuggestedAction list" where
  "getSuggestedActionsForFailure result =
     [\<lparr>action_type = Regenerate, description = ''Try again with simplified geometry''\<rparr>,
      \<lparr>action_type = Modify, description = ''Modify design parameters''\<rparr>,
      \<lparr>action_type = Clarify, description = ''Provide more details about the design''\<rparr>]"

definition generateUserFeedback :: "ExecutionResult \<Rightarrow> UserFeedback" where
  "generateUserFeedback result =
     (if success result then
        \<lparr>status = StSuccess,
         message = ''Model created successfully!'',
         details = Some (case warnings result of
                           None \<Rightarrow> ''The model was created without any warnings.''
                         | Some ws \<Rightarrow>
                             if length ws > 0
                             then ''Model created with '' @ showNat (length ws) @ '' warning(s).''
                             else ''The model was created without any warnings.''),
         suggestedActions = Some (getSuggestedActionsForSuccess result)\<rparr>
      else
        \<lparr>status = StError,
         message = ''Failed to create model.'',
         details = Some (case errorMessage result of
                           None \<Rightarrow> ''An unknown error occurred during execution.''
                         | Some m \<Rightarrow> if m = [] then ''An unknown error occurred during execution.''
                                     else m),
         suggestedActions = Some (getSuggestedActionsForFailure result)\<rparr>)"

definition formatErrorMessage :: "string \<Rightarrow> string" where
  "formatErrorMessage msg =
     (if includesStr msg ''TopoDS_Shape is null''
      then ''The design resulted in an invalid shape. Try simplifying your geometry.''
      else if includesStr msg ''out of bounds''
      then ''One or more parameters are out of the allowed range. Check your dimensions.''
      else msg)"

section \<open>Design generator\<close>

definition newline :: string where
  "newline = [CHR 0x0A]"

definition dquote :: string where
  "dquote = [CHR 0x22]"

text \<open>The statement pushed by the \<^verbatim>\<open>switch\<close> over the primitive's type: one per case.\<close>

fun makeCall :: "(rat \<Rightarrow> string) \<Rightarrow> string \<Rightarrow> PrimitiveType \<Rightarrow> params \<Rightarrow> string" where
  "makeCall ns varName Cube ps =
     varName @ '' = Part.makeBox('' @ interp ns (ps ''length'') @ '', ''
        @ interp ns (ps ''width'') @ '', '' @ interp ns (ps ''height'') @ '')''"
| "makeCall ns varName Sphere ps =
     varName @ '' = Part.makeSphere('' @ interp ns (ps ''radius'') @ '')''"
| "makeCall ns varName Cylinder ps =
     varName @ '' = Part.makeCylinder('' @ interp ns (ps ''radius'') @ '', ''
        @ interp ns (ps ''height'') @ '')''"
| "makeCall ns varName Cone ps =
     varName @ '' = Part.makeCone('' @ interp ns (ps ''radius1'') @ '', ''
        @ interp ns (Some (orDefault (ps ''radius2'') (JNum 0))) @ '', ''
        @ interp ns (ps ''height'') @ '')''"
| "makeCall ns varName Torus ps =
     varName @ '' = Part.makeTorus('' @ interp ns (ps ''radius1'') @ '', ''
        @ interp ns (ps ''radius2'') @ '')''"

definition translateLine :: "(rat \<Rightarrow> string) \<Rightarrow> string \<Rightarrow> Position \<Rightarrow> string" where
  "translateLine ns varName pos =
     varName @ ''.translate(Base.Vector('' @ ns (pos_x pos) @ '', '' @ ns (pos_y pos) @ '', ''
       @ ns (pos_z pos) @ ''))''"

definition rotateLines :: "(rat \<Rightarrow> string) \<Rightarrow> string \<Rightarrow> Rotation \<Rightarrow> string list" where
  "rotateLines ns varName rot =
     [varName @ ''.rotate(Base.Vector(0,0,0), Base.Vector(1,0,0), '' @ ns (rot_x rot) @ '')'',
      varName @ ''.rotate(Base.Vector(0,0,0), Base.Vector(0,1,0), '' @ ns (rot_y rot) @ '')'',
      varName @ ''.rotate(Base.Vector(0,0,0), Base.Vector(0,0,1), '' @ ns (rot_z rot) @ '')'']"

definition generatePrimitiveCode :: "(rat \<Rightarrow> string) \<Rightarrow> PrimitiveShape \<Rightarrow> string list" where
  "generatePrimitiveCode ns primitive =
     (let varName = prim_id primitive;
          lines0 = [makeCall ns varName (prim_type primitive) (prim_parameters primitive)];
          lines1 = (case position primitive of
                      None \<Rightarrow> lines0
                    | Some pos \<Rightarrow> lines0 @ [translateLine ns varName pos]);
          lines2 = (case rotation primitive of
                      None \<Rightarrow> lines1
                    | Some rot \<Rightarrow> lines1 @ rotateLines ns varName rot)
      in lines2 @
         [''shape_obj = doc.addObject('' @ dquote @ ''Part::Feature'' @ dquote @ '', '' @ dquote
            @ capitalize (primitiveTypeName (prim_type primitive)) @ dquote @ '')'',
          ''shape_obj.Shape = '' @ varName])"

text \<open>\<^verbatim>\<open>targetIds[0]\<close> interpolated: \<^verbatim>\<open>undefined\<close> when the array is empty.\<close>

definition firstTarget :: "string list \<Rightarrow> string" where
  "firstTarget ids = (case ids of [] \<Rightarrow> ''undefined'' | x # _ \<Rightarrow> x)"

text \<open>\<^verbatim>\<open>operation.parameters?.key\<close>\<close>

definition optParam :: "params option \<Rightarrow> string \<Rightarrow> jsval option" where
  "optParam ps k = (case ps of None \<Rightarrow> None | Some m \<Rightarrow> m k)"

text \<open>The statement pushed by the \<^verbatim>\<open>switch\<close> over the operation's type: one per case.\<close>

definition operationCall :: "(rat \<Rightarrow> string) \<Rightarrow> string \<Rightarrow> Operation \<Rightarrow> string" where
  "operationCall ns resultName operation =
     (case op_type operation of
        OpUnion \<Rightarrow>
          resultName @ '' = '' @ firstTarget (targetIds operation) @ ''.fuse(''
             @ join '', '' (drop 1 (targetIds operation)) @ '')''
      | OpDifference \<Rightarrow>
          resultName @ '' = '' @ firstTarget (targetIds operation) @ ''.cut(''
             @ join '', '' (drop 1 (targetIds operation)) @ '')''
      | OpIntersection \<Rightarrow>
          resultName @ '' = '' @ firstTarget (targetIds operation) @ ''.common(''
             @ join '', '' (drop 1 (targetIds operation)) @ '')''
      | OpFillet \<Rightarrow>
          (let radius = orDefault (optParam (op_parameters operation) ''radius'') (JNum 1) in
           resultName @ '' = '' @ firstTarget (targetIds operation) @ ''.makeFillet(''
              @ interp ns (Some radius) @ '', '' @ firstTarget (targetIds operation) @ ''.Edges)'')
      | OpChamfer \<Rightarrow>
          (let distance = orDefault (optParam (op_parameters operation) ''distance'') (JNum 1) in
           resultName @ '' = '' @ firstTarget (targetIds operation) @ ''.makeChamfer(''
              @ interp ns (Some distance) @ '', '' @ firstTarget (targetIds operation)
              @ ''.Edges)''))"

definition resultNameOf :: "Operation \<Rightarrow> string" where
  "resultNameOf operation =
     ''result_'' @ operationTypeName (op_type operation) @ ''_'' @ join ''_'' (targetIds operation)"

definition generateOperationCode :: "(rat \<Rightarrow> string) \<Rightarrow> Operation \<Rightarrow> string list" where
  "generateOperationCode ns operation =
     (let resultName = resultNameOf operation;
          lines0 = [operationCall ns resultName operation]
      in lines0 @
         [''result_obj = doc.addObject('' @ dquote @ ''Part::Feature'' @ dquote @ '', '' @ dquote
            @ capitalize (operationTypeName (op_type operation)) @ dquote @ '')'',
          ''result_obj.Shape = '' @ resultName])"

definition standardImports :: "string list" where
  "standardImports = [''import FreeCAD as App'', ''import Part'', ''from FreeCAD import Base'']"

text \<open>\<^verbatim>\<open>name.replace(/[^a-zA-Z0-9]/g, '_')\<close>\<close>

definition sanitizeName :: "string \<Rightarrow> string" where
  "sanitizeName s = map (\<lambda>c. if isLower c \<or> isUpper c \<or> isDigit c then c else CHR ''_'') s"

text \<open>
  The array \<^verbatim>\<open>codeLines\<close> at the end of \<^verbatim>\<open>generateFreeCADCode\<close>; each \<^verbatim>\<open>forEach\<close> is a
  left fold whose step pushes onto the array built so far.
\<close>

definition codeLines :: "(rat \<Rightarrow> string) \<Rightarrow> StructuredDesign \<Rightarrow> string list" where
  "codeLines ns design =
     (let lines0 = standardImports
                     @ [[], ''# Create a new document'', ''doc = App.newDocument()'', []];
          lines1 = foldl (\<lambda>acc primitive.
                       acc @ [''# Create '' @ primitiveTypeName (prim_type primitive)]
                           @ generatePrimitiveCode ns primitive @ [[]])
                     lines0 (primitives design);
          lines2 = (if length (operations design) > 0
                    then foldl (\<lambda>acc operation. acc @ generateOperationCode ns operation @ [[]])
                           (lines1 @ [''# Apply operations'']) (operations design)
                    else lines1)
      in lines2 @
         [''# Recompute the document'', ''doc.recompute()'', [],
          ''# Save the document (optional)'',
          ''# doc.saveAs('' @ dquote @ sanitizeName (md_name (metadata design)) @ ''.FCStd''
            @ dquote @ '')''])"

definition generateFreeCADCode :: "(rat \<Rightarrow> string) \<Rightarrow> StructuredDesign \<Rightarrow> FreeCADScript" where
  "generateFreeCADCode ns design =
     \<lparr>code = join newline (codeLines ns design),
      script_imports = standardImports,
      safeToExecute = True\<rparr>"

definition dangerousPatterns :: "string list" where
  "dangerousPatterns =
     [''import os'', ''import sys'', ''import subprocess'', ''exec('', ''eval('', ''execfile('',
      ''__import__'', ''open('', ''file('', ''system('', ''popen('']"

definition validateScriptSafety :: "FreeCADScript \<Rightarrow> bool" where
  "validateScriptSafety script =
     (let lowered = toLowerCase (code script) in
      \<not> list_ex (\<lambda>pattern. includesStr lowered (toLowerCase pattern)) dangerousPatterns)"

section \<open>Execution engine\<close>

text \<open>
  The engine is the mock of the source: a dispatched script is written to the console and
  a canned success comes back. The state threaded through \<open>executeScript\<close> is the list of
  script texts handed to the engine so far. Nothing in the \<^verbatim>\<open>try\<close> block of the mock can
  throw, so its \<^verbatim>\<open>catch\<close> branch has no counterpart here.
\<close>

type_synonym engine = "string list"

definition executeScript :: "FreeCADScript \<Rightarrow> engine \<Rightarrow> ExecutionResult \<times> engine" where
  "executeScript script eng =
     (if \<not> validateScriptSafety script then
        (\<lparr>success = False, objectIds = None,
          errorMessage =
            Some ''Script contains potentially unsafe operations and cannot be executed.'',
          warnings = Some [''Potentially unsafe code detected.''],
          renderUrl = None\<rparr>, eng)
      else
        (\<lparr>success = True, objectIds = Some [''Object001'', ''Object002''],
          errorMessage = None,
          warnings = Some [],
          renderUrl = Some ''/models/cube-render.png''\<rparr>, eng @ [code script]))"

section \<open>Intent parser\<close>

text \<open>\<^verbatim>\<open>/\d+/.test(s)\<close>\<close>

definition hasDimensions :: "string \<Rightarrow> bool" where
  "hasDimensions s = list_ex isDigit s"

definition shapeKeywords :: "string list" where
  "shapeKeywords = [''cube'', ''box'', ''sphere'', ''cylinder'', ''cone'', ''torus'']"

definition hasShapeKeyword :: "string \<Rightarrow> bool" where
  "hasShapeKeyword s = list_ex (\<lambda>keyword. includesStr s keyword) shapeKeywords"

definition needsClarification :: "DesignIntent \<Rightarrow> bool" where
  "needsClarification intent =
     (let p = toLowerCase (prompt intent) in
      if length p < 5 then True
      else if \<not> hasShapeKeyword p then True
      else \<not> hasDimensions p)"

definition generateClarificationQuestions :: "DesignIntent \<Rightarrow> string list" where
  "generateClarificationQuestions intent =
     (let p = toLowerCase (prompt intent);
          questions0 = [];
          questions1 = (if \<not> hasShapeKeyword p
                        then questions0 @ [''What shape would you like to create?'']
                        else questions0);
          questions2 = (if \<not> hasDimensions p
                        then questions1 @ [''What dimensions should the shape have?'']
                        else questions1)
      in questions2)"

text \<open>
  \<^verbatim>\<open>s.match(/(\d+)(?:\s*)(mm|cm|m|inch|in)?/)\<close>: the leftmost longest run of digits, the white
  space after it, then the first alternative of the unit group that matches there. The
  result is the pair of the two capture groups; the second is absent when no unit follows.
\<close>

definition unitTokens :: "string list" where
  "unitTokens = [''mm'', ''cm'', ''m'', ''inch'', ''in'']"

definition dimensionMatch :: "string \<Rightarrow> (string \<times> string option) option" where
  "dimensionMatch s =
     (let s1 = dropWhile (\<lambda>c. \<not> isDigit c) s in
      if s1 = [] then None
      else (let digits = takeWhile isDigit s1;
                s2 = dropWhile isDigit s1;
                s3 = dropWhile isSpace s2
            in Some (digits, find (\<lambda>u. startsWith s3 u) unitTokens)))"

text \<open>\<^verbatim>\<open>parseInt(digits, 10)\<close> on a string of decimal digits.\<close>

definition parseInt10 :: "string \<Rightarrow> nat" where
  "parseInt10 digits = foldl (\<lambda>acc c. 10 * acc + ((of_char c :: nat) - 48)) 0 digits"

text \<open>
  \<^verbatim>\<open>'shape_' + Math.random().toString(36).substr(2, 9)\<close>; the argument is the base-36 text
  of the random number drawn.
\<close>

definition generateId :: "string \<Rightarrow> string" where
  "generateId r = ''shape_'' @ take 9 (drop 2 r)"

text \<open>
  \<open>rnd\<close> is the text of the random number and \<open>now\<close> the ISO text of the current time.
  The body of the \<^verbatim>\<open>try\<close> block throws on no well-typed intent.
\<close>

definition parseDesignIntent ::
    "string \<Rightarrow> string \<Rightarrow> DesignIntent \<Rightarrow> UserFeedback + StructuredDesign" where
  "parseDesignIntent rnd now intent =
     (let p = toLowerCase (prompt intent);
          dm = dimensionMatch p;
          size = (case dm of None \<Rightarrow> (10 :: rat) | Some (digits, _) \<Rightarrow> of_nat (parseInt10 digits));
          unit = (case dm of Some (_, Some u) \<Rightarrow> u | _ \<Rightarrow> ''mm'');
          operations0 = [];
          metadata0 = \<lparr>md_name = ''Design from '' @ dquote @ prompt intent @ dquote,
                       md_description = prompt intent,
                       author = ''MCP User'',
                       createdAt = now,
                       units = MM\<rparr>
      in
      if includesStr p ''cube'' \<or> includesStr p ''box'' then
        Inr \<lparr>primitives =
               [\<lparr>prim_id = generateId rnd, prim_type = Cube,
                 prim_parameters = [''length'' \<mapsto> JNum size, ''width'' \<mapsto> JNum size,
                                    ''height'' \<mapsto> JNum size, ''unit'' \<mapsto> JStr unit],
                 position = None, rotation = None\<rparr>],
             operations = operations0, metadata = metadata0\<rparr>
      else if includesStr p ''sphere'' then
        Inr \<lparr>primitives =
               [\<lparr>prim_id = generateId rnd, prim_type = Sphere,
                 prim_parameters = [''radius'' \<mapsto> JNum (size / 2), ''unit'' \<mapsto> JStr unit],
                 position = None, rotation = None\<rparr>],
             operations = operations0, metadata = metadata0\<rparr>
      else if includesStr p ''cylinder'' then
        Inr \<lparr>primitives =
               [\<lparr>prim_id = generateId rnd, prim_type = Cylinder,
                 prim_parameters = [''radius'' \<mapsto> JNum (size / 2), ''height'' \<mapsto> JNum size,
                                    ''unit'' \<mapsto> JStr unit],
                 position = None, rotation = None\<rparr>],
             operations = operations0, metadata = metadata0\<rparr>
      else
        Inl \<lparr>status = StClarification,
             message = ''Could not determine what shape to create.'',
             details = Some (''Please specify a shape type such as '' @ dquote @ ''cube'' @ dquote
                             @ '', '' @ dquote @ ''sphere'' @ dquote @ '', or '' @ dquote
                             @ ''cylinder'' @ dquote @ ''.''),
             suggestedActions =
               Some [\<lparr>action_type = Clarify, description = ''Specify a primitive shape''\<rparr>]\<rparr>)"

section \<open>Orchestrator\<close>

text \<open>
  A thrown value is an \<^verbatim>\<open>Error\<close> with its message or anything else. Each call the
  orchestrator makes inside its \<^verbatim>\<open>try\<close> block either returns or throws, so the pipeline
  is first written over arbitrary stage implementations and then instantiated with the
  stages of the repository.
\<close>

datatype thrown = ErrorObject string | NonError

record Payload =
  structuredDesign :: "StructuredDesign option"
  script :: "FreeCADScript option"
  executionResult :: "ExecutionResult option"
  feedback :: UserFeedback

record 'w Stages =
  st_needsClarification :: "DesignIntent \<Rightarrow> thrown + bool"
  st_generateClarificationQuestions :: "DesignIntent \<Rightarrow> thrown + string list"
  st_parseDesignIntent :: "DesignIntent \<Rightarrow> thrown + (UserFeedback + StructuredDesign)"
  st_generateFreeCADCode :: "StructuredDesign \<Rightarrow> thrown + FreeCADScript"
  st_validateScriptSafety :: "FreeCADScript \<Rightarrow> thrown + bool"
  st_executeScript :: "FreeCADScript \<Rightarrow> 'w \<Rightarrow> (thrown + ExecutionResult) \<times> 'w"
  st_generateUserFeedback :: "ExecutionResult \<Rightarrow> thrown + UserFeedback"

definition clarificationPayload :: "string list \<Rightarrow> Payload" where
  "clarificationPayload questions =
     \<lparr>structuredDesign = None, script = None, executionResult = None,
      feedback =
        \<lparr>status = StClarification,
         message = ''Your design intent needs more details.'',
         details = Some ''Please provide additional information to create your model.'',
         suggestedActions =
           Some (map (\<lambda>question. \<lparr>action_type = Clarify, description = question\<rparr>) questions)\<rparr>\<rparr>"

definition unsafePayload :: "StructuredDesign \<Rightarrow> FreeCADScript \<Rightarrow> Payload" where
  "unsafePayload parsedResult scr =
     \<lparr>structuredDesign = Some parsedResult, script = Some scr, executionResult = None,
      feedback =
        \<lparr>status = StError,
         message = ''Generated code contains unsafe operations.'',
         details =
           Some ''The system detected potentially dangerous operations in the generated code.'',
         suggestedActions =
           Some [\<lparr>action_type = Modify,
                  description = ''Modify your design intent to avoid unsafe operations.''\<rparr>]\<rparr>\<rparr>"

definition errorPayload :: "thrown \<Rightarrow> Payload" where
  "errorPayload e =
     \<lparr>structuredDesign = None, script = None, executionResult = None,
      feedback =
        \<lparr>status = StError,
         message = ''An unexpected error occurred while processing your design.'',
         details = Some (case e of ErrorObject m \<Rightarrow> m | NonError \<Rightarrow> ''Unknown error''),
         suggestedActions =
           Some [\<lparr>action_type = Regenerate,
                  description = ''Try again with a simpler design''\<rparr>]\<rparr>\<rparr>"

text \<open>The \<^verbatim>\<open>try\<close> block: \<open>Inl\<close> is the value thrown out of it.\<close>

definition tryBlock :: "'w Stages \<Rightarrow> DesignIntent \<Rightarrow> 'w \<Rightarrow> (thrown + Payload) \<times> 'w" where
  "tryBlock st intent w =
     (case st_needsClarification st intent of
        Inl e \<Rightarrow> (Inl e, w)
      | Inr True \<Rightarrow>
          (case st_generateClarificationQuestions st intent of
             Inl e \<Rightarrow> (Inl e, w)
           | Inr questions \<Rightarrow> (Inr (clarificationPayload questions), w))
      | Inr False \<Rightarrow>
          (case st_parseDesignIntent st intent of
             Inl e \<Rightarrow> (Inl e, w)
           | Inr (Inl fb) \<Rightarrow>
               (Inr \<lparr>structuredDesign = None, script = None, executionResult = None,
                     feedback = fb\<rparr>, w)
           | Inr (Inr parsedResult) \<Rightarrow>
               (case st_generateFreeCADCode st parsedResult of
                  Inl e \<Rightarrow> (Inl e, w)
                | Inr scr \<Rightarrow>
                    (case st_validateScriptSafety st scr of
                       Inl e \<Rightarrow> (Inl e, w)
                     | Inr False \<Rightarrow> (Inr (unsafePayload parsedResult scr), w)
                     | Inr True \<Rightarrow>
                         (case st_executeScript st scr w of
                            (Inl e, w') \<Rightarrow> (Inl e, w')
                          | (Inr res, w') \<Rightarrow>
                              (case st_generateUserFeedback st res of
                                 Inl e \<Rightarrow> (Inl e, w')
                               | Inr fb \<Rightarrow>
                                   (Inr \<lparr>structuredDesign = Some parsedResult,
                                         script = Some scr,
                                         executionResult = Some res,
                                         feedback = fb\<rparr>, w')))))))"

definition processDesignIntentWith :: "'w Stages \<Rightarrow> DesignIntent \<Rightarrow> 'w \<Rightarrow> Payload \<times> 'w" where
  "processDesignIntentWith st intent w =
     (case tryBlock st intent w of
        (Inl e, w') \<Rightarrow> (errorPayload e, w')
      | (Inr payload, w') \<Rightarrow> (payload, w'))"

text \<open>The stages the module imports; none of them throws.\<close>

definition repositoryStages :: "(rat \<Rightarrow> string) \<Rightarrow> string \<Rightarrow> string \<Rightarrow> engine Stages" where
  "repositoryStages ns rnd now =
     \<lparr>st_needsClarification = (\<lambda>intent. Inr (needsClarification intent)),
      st_generateClarificationQuestions = (\<lambda>intent. Inr (generateClarificationQuestions intent)),
      st_parseDesignIntent = (\<lambda>intent. Inr (parseDesignIntent rnd now intent)),
      st_generateFreeCADCode = (\<lambda>design. Inr (generateFreeCADCode ns design)),
      st_validateScriptSafety = (\<lambda>scr. Inr (validateScriptSafety scr)),
      st_executeScript = (\<lambda>scr eng. case executeScript scr eng of (res, eng') \<Rightarrow> (Inr res, eng')),
      st_generateUserFeedback = (\<lambda>res. Inr (generateUserFeedback res))\<rparr>"

definition processDesignIntent ::
    "(rat \<Rightarrow> string) \<Rightarrow> string \<Rightarrow> string \<Rightarrow> DesignIntent \<Rightarrow> engine \<Rightarrow> Payload \<times> engine" where
  "processDesignIntent ns rnd now intent eng =
     processDesignIntentWith (repositoryStages ns rnd now) intent eng"

section \<open>Example inputs\<close>

text \<open>
  A number renderer for the examples: the decimal text of an integer-valued number, which
  is what the runtime prints for it.
\<close>

definition integerText :: "rat \<Rightarrow> string" where
  "integerText r = (if r < 0 then ''-'' @ showNat (nat \<lfloor>- r\<rfloor>) else showNat (nat \<lfloor>r\<rfloor>))"

definition cmCubeIntent :: DesignIntent where
  "cmCubeIntent = \<lparr>prompt = ''Create a 5cm Cube'', contextId = ''ctx-1'', constraints = None\<rparr>"

definition cmCubeDesign :: StructuredDesign where
  "cmCubeDesign =
     \<lparr>primitives =
        [\<lparr>prim_id = ''shape_k3j9x2m1q'', prim_type = Cube,
          prim_parameters = [''length'' \<mapsto> JNum 5, ''width'' \<mapsto> JNum 5, ''height'' \<mapsto> JNum 5,
                             ''unit'' \<mapsto> JStr ''cm''],
          position = None, rotation = None\<rparr>],
      operations = [],
      metadata = \<lparr>md_name = ''Design from '' @ dquote @ ''Create a 5cm Cube'' @ dquote,
                  md_description = ''Create a 5cm Cube'',
                  author = ''MCP User'',
                  createdAt = ''2024-05-01T12:00:00.000Z'',
                  units = MM\<rparr>\<rparr>"

definition shortIntent :: DesignIntent where
  "shortIntent = \<lparr>prompt = ''Box1'', contextId = ''ctx-2'', constraints = None\<rparr>"

definition vagueIntent :: DesignIntent where
  "vagueIntent = \<lparr>prompt = ''make something nice'', contextId = ''ctx-3'', constraints = None\<rparr>"

definition unsizedIntent :: DesignIntent where
  "unsizedIntent = \<lparr>prompt = ''a big Sphere'', contextId = ''ctx-4'', constraints = None\<rparr>"

definition shapelessIntent :: DesignIntent where
  "shapelessIntent = \<lparr>prompt = ''something 20 wide'', contextId = ''ctx-5'', constraints = None\<rparr>"

definition cleanRun :: ExecutionResult where
  "cleanRun = \<lparr>success = True, objectIds = Some [''Object001''], errorMessage = None,
               warnings = Some [], renderUrl = None\<rparr>"

definition warnedRun :: ExecutionResult where
  "warnedRun = \<lparr>success = True, objectIds = Some [''Object001''], errorMessage = None,
                warnings = Some [''thin wall''], renderUrl = None\<rparr>"

definition failedRun :: ExecutionResult where
  "failedRun = \<lparr>success = False, objectIds = None, errorMessage = Some ''TopoDS_Shape is null'',
                warnings = None, renderUrl = None\<rparr>"

definition smuggled :: FreeCADScript where
  "smuggled = \<lparr>code = ''x = 1; Import OS; y = 2'', script_imports = [], safeToExecute = True\<rparr>"

text \<open>The stages of the repository, except that script generation throws.\<close>

definition throwingStages :: "engine Stages" where
  "throwingStages =
     (repositoryStages integerText ''0.k3j9x2m1q8z'' ''2024-05-01T12:00:00.000Z'')
       \<lparr>st_generateFreeCADCode := (\<lambda>design. Inl (ErrorObject ''stack overflow''))\<rparr>"

definition fuseThree :: Operation where
  "fuseThree = \<lparr>op_type = OpUnion, targetIds = [''a'', ''b'', ''c''], op_parameters = None\<rparr>"

definition turnedBox :: PrimitiveShape where
  "turnedBox =
     \<lparr>prim_id = ''box1'', prim_type = Cube,
      prim_parameters = [''length'' \<mapsto> JNum 2, ''width'' \<mapsto> JNum 3, ''height'' \<mapsto> JNum 4],
      position = Some \<lparr>pos_x = 1, pos_y = 0, pos_z = 0\<rparr>,
      rotation = Some \<lparr>rot_x = 0, rot_y = 90, rot_z = 0\<rparr>\<rparr>"

definition zeroFillet :: Operation where
  "zeroFillet = \<lparr>op_type = OpFillet, targetIds = [''edge1''],
                 op_parameters = Some [''radius'' \<mapsto> JNum 0]\<rparr>"

definition bareFillet :: Operation where
  "bareFillet = \<lparr>op_type = OpFillet, targetIds = [''edge1''], op_parameters = None\<rparr>"

definition zeroChamfer :: Operation where
  "zeroChamfer = \<lparr>op_type = OpChamfer, targetIds = [''edge1''],
                  op_parameters = Some [''distance'' \<mapsto> JNum 0, ''note'' \<mapsto> JStr ''sharp'']\<rparr>"

definition bareChamfer :: Operation where
  "bareChamfer = \<lparr>op_type = OpChamfer, targetIds = [''edge1''],
                  op_parameters = Some [''note'' \<mapsto> JStr ''sharp'']\<rparr>"




section \<open>Auxiliary facts\<close>

lemma startsWith_iff: "startsWith s pat \<longleftrightarrow> (\<exists>post. s = pat @ post)"
  by (induction s pat rule: startsWith.induct) auto

text \<open>\<open>includesStr\<close> decides whether the pattern occurs as a contiguous piece of the text.\<close>

lemma includesStr_iff: "includesStr s pat \<longleftrightarrow> (\<exists>pre post. s = pre @ pat @ post)"
proof (induction s)
  case Nil
  then show ?case by simp
next
  case (Cons c cs)
  show ?case
  proof
    assume "includesStr (c # cs) pat"
    then consider "startsWith (c # cs) pat" | "includesStr cs pat" by auto
    then show "\<exists>pre post. c # cs = pre @ pat @ post"
    proof cases
      case 1
      then obtain post where "c # cs = pat @ post" using startsWith_iff by blast
      then have "c # cs = [] @ pat @ post" by simp
      then show ?thesis by blast
    next
      case 2
      then obtain pre post where "cs = pre @ pat @ post" using Cons.IH by blast
      then have "c # cs = (c # pre) @ pat @ post" by simp
      then show ?thesis by blast
    qed
  next
    assume "\<exists>pre post. c # cs = pre @ pat @ post"
    then obtain pre post where e: "c # cs = pre @ pat @ post" by blast
    show "includesStr (c # cs) pat"
    proof (cases pre)
      case Nil
      with e have "startsWith (c # cs) pat" using startsWith_iff by auto
      then show ?thesis by simp
    next
      case (Cons d ds)
      with e have "cs = ds @ pat @ post" by simp
      then have "includesStr cs pat" using Cons.IH by blast
      then show ?thesis by simp
    qed
  qed
qed

lemma toLowerCase_append: "toLowerCase (a @ b) = toLowerCase a @ toLowerCase b"
  by (simp add: toLowerCase_def)

lemma friendly_shape_clean:
  "\<not> includesStr ''The design resulted in an invalid shape. Try simplifying your geometry.''
       ''TopoDS_Shape is null''"
  by code_simp

lemma friendly_range_clean:
  "\<not> includesStr ''One or more parameters are out of the allowed range. Check your dimensions.''
       ''TopoDS_Shape is null''"
  "\<not> includesStr ''One or more parameters are out of the allowed range. Check your dimensions.''
       ''out of bounds''"
  by code_simp+




lemma generatePrimitiveCode_lines:
  "generatePrimitiveCode ns p =
     makeCall ns (prim_id p) (prim_type p) (prim_parameters p)
     # (case position p of None \<Rightarrow> [] | Some pos \<Rightarrow> [translateLine ns (prim_id p) pos])
     @ (case rotation p of None \<Rightarrow> [] | Some rot \<Rightarrow> rotateLines ns (prim_id p) rot)
     @ [''shape_obj = doc.addObject('' @ dquote @ ''Part::Feature'' @ dquote @ '', '' @ dquote
            @ capitalize (primitiveTypeName (prim_type p)) @ dquote @ '')'',
        ''shape_obj.Shape = '' @ prim_id p]"
  by (simp add: generatePrimitiveCode_def Let_def split: option.splits)

lemma generateOperationCode_lines:
  "generateOperationCode ns operation =
     [operationCall ns (resultNameOf operation) operation,
      ''result_obj = doc.addObject('' @ dquote @ ''Part::Feature'' @ dquote @ '', '' @ dquote
            @ capitalize (operationTypeName (op_type operation)) @ dquote @ '')'',
      ''result_obj.Shape = '' @ resultNameOf operation]"
  by (simp add: generateOperationCode_def Let_def)

lemma capitalize_operation_names:
  "capitalize ''union'' = ''Union''"
  "capitalize ''difference'' = ''Difference''"
  "capitalize ''intersection'' = ''Intersection''"
  "capitalize ''fillet'' = ''Fillet''"
  "capitalize ''chamfer'' = ''Chamfer''"
  "capitalize ''cube'' = ''Cube''"
  by code_simp+

lemma integerText_examples:
  "integerText 0 = ''0''" "integerText 1 = ''1''" "integerText 2 = ''2''" "integerText 3 = ''3''"
  "integerText 4 = ''4''" "integerText 90 = ''90''"
  by code_simp+

lemma cmCube_lower: "toLowerCase ''Create a 5cm Cube'' = ''create a 5cm cube''"
  by code_simp

lemma cmCube_match: "dimensionMatch ''create a 5cm cube'' = Some (''5'', Some ''cm'')"
  by code_simp

lemma cmCube_keyword: "includesStr ''create a 5cm cube'' ''cube''"
  by code_simp

lemma cmCube_size: "parseInt10 ''5'' = 5"
  by code_simp

lemma cmCube_id: "generateId ''0.k3j9x2m1q8z'' = ''shape_k3j9x2m1q''"
  by code_simp

lemma cmCube_parse:
  "parseDesignIntent ''0.k3j9x2m1q8z'' ''2024-05-01T12:00:00.000Z'' cmCubeIntent = Inr cmCubeDesign"
  by (simp add: parseDesignIntent_def cmCubeIntent_def cmCubeDesign_def cmCube_lower cmCube_match
        cmCube_keyword cmCube_size cmCube_id)

lemma cmCube_clear: "needsClarification cmCubeIntent = False"
  by code_simp

lemma cmCube_safe: "validateScriptSafety (generateFreeCADCode integerText cmCubeDesign) = True"
  by code_simp

lemma example_prompts:
  "length (toLowerCase (prompt shortIntent)) < 5"
  "hasShapeKeyword (toLowerCase (prompt shortIntent))"
  "hasDimensions (toLowerCase (prompt shortIntent))"
  "\<not> hasShapeKeyword (toLowerCase (prompt vagueIntent))"
  "\<not> hasDimensions (toLowerCase (prompt vagueIntent))"
  "hasShapeKeyword (toLowerCase (prompt unsizedIntent))"
  "\<not> hasDimensions (toLowerCase (prompt unsizedIntent))"
  "\<not> hasShapeKeyword (toLowerCase (prompt shapelessIntent))"
  "hasDimensions (toLowerCase (prompt shapelessIntent))"
  by code_simp+


lemma repository_needs:
  "st_needsClarification (repositoryStages ns rnd now) intent = Inr (needsClarification intent)"
  "st_generateClarificationQuestions (repositoryStages ns rnd now) intent
     = Inr (generateClarificationQuestions intent)"
  by (simp_all add: repositoryStages_def)

lemma errorPayload_shape:
  "status (feedback (errorPayload e)) = StError"
  "suggestedActions (feedback (errorPayload e))
     = Some [\<lparr>action_type = Regenerate, description = ''Try again with a simpler design''\<rparr>]"
  "structuredDesign (errorPayload e) = None"
  "script (errorPayload e) = None"
  "executionResult (errorPayload e) = None"
  by (simp_all add: errorPayload_def)

section \<open>The safety gate and the execution broker\<close>

text \<open>
  Claim C1. Whenever the code text of a script contains a piece \<open>t\<close> that is a denylisted
  pattern up to letter case (for instance \<^verbatim>\<open>Import OS\<close>), \<open>validateScriptSafety\<close>
  returns false, and \<open>executeScript\<close>, which checks safety again itself, returns the failure
  result (success false, the unsafe-code error message, one warning) and leaves the engine
  untouched: the script is not handed over.
\<close>

theorem unsafe_script_rejected:
  assumes "pattern \<in> set dangerousPatterns"
      and "toLowerCase t = toLowerCase pattern"
      and "code scr = pre @ t @ post"
  shows "validateScriptSafety scr = False \<and>
         executeScript scr eng =
           (\<lparr>success = False, objectIds = None,
             errorMessage =
               Some ''Script contains potentially unsafe operations and cannot be executed.'',
             warnings = Some [''Potentially unsafe code detected.''],
             renderUrl = None\<rparr>, eng)"
proof -
  have "toLowerCase (code scr) = toLowerCase pre @ toLowerCase pattern @ toLowerCase post"
    using assms(2,3) by (simp add: toLowerCase_append)
  then have "includesStr (toLowerCase (code scr)) (toLowerCase pattern)"
    unfolding includesStr_iff by blast
  with assms(1) have "\<not> validateScriptSafety scr"
    by (auto simp: validateScriptSafety_def list_ex_iff)
  then show ?thesis by (simp add: executeScript_def)
qed

theorem unsafe_script_rejected_witness:
  "validateScriptSafety smuggled = False \<and>
   success (fst (executeScript smuggled [])) = False \<and>
   errorMessage (fst (executeScript smuggled []))
     = Some ''Script contains potentially unsafe operations and cannot be executed.'' \<and>
   warnings (fst (executeScript smuggled [])) = Some [''Potentially unsafe code detected.''] \<and>
   snd (executeScript smuggled []) = []"
proof -
  have p: "''import os'' \<in> set dangerousPatterns" by (simp add: dangerousPatterns_def)
  have l: "toLowerCase ''Import OS'' = toLowerCase ''import os''" by code_simp
  have c: "code smuggled = ''x = 1; '' @ ''Import OS'' @ ''; y = 2''" by (simp add: smuggled_def)
  show ?thesis using unsafe_script_rejected [OF p l c, of "[]"] by simp
qed

section \<open>The orchestrator\<close>

text \<open>
  Claim C2. \<open>processDesignIntent\<close> is the pipeline over the stages of the repository, and
  for any implementation of the stages the pipeline returns a payload with a feedback.
  Whichever stage throws (the clarification check, the question generator, the parser, the
  script generator, the safety check, the execution, the feedback synthesis), the result
  is the generic error payload: status error, the single suggested action \<^verbatim>\<open>regenerate\<close>
  (try again with a simpler design), and none of the optional fields. When no stage throws,
  the optional fields record how far the run got: none after a clarification or a feedback
  from the parser, the design and the script after an unsafe script, all three after an
  execution. In every run the execution result is present only with the script, and the
  script exactly when the design is.
\<close>

theorem pipeline_always_feedback:
  "(st_needsClarification st intent = Inl e \<longrightarrow>
      processDesignIntentWith st intent w = (errorPayload e, w)) \<and>
   (st_needsClarification st intent = Inr True \<and>
    st_generateClarificationQuestions st intent = Inl e \<longrightarrow>
      processDesignIntentWith st intent w = (errorPayload e, w)) \<and>
   (st_needsClarification st intent = Inr False \<and>
    st_parseDesignIntent st intent = Inl e \<longrightarrow>
      processDesignIntentWith st intent w = (errorPayload e, w)) \<and>
   (st_needsClarification st intent = Inr False \<and>
    st_parseDesignIntent st intent = Inr (Inr design) \<and>
    st_generateFreeCADCode st design = Inl e \<longrightarrow>
      processDesignIntentWith st intent w = (errorPayload e, w)) \<and>
   (st_needsClarification st intent = Inr False \<and>
    st_parseDesignIntent st intent = Inr (Inr design) \<and>
    st_generateFreeCADCode st design = Inr scr \<and>
    st_validateScriptSafety st scr = Inl e \<longrightarrow>
      processDesignIntentWith st intent w = (errorPayload e, w)) \<and>
   (st_needsClarification st intent = Inr False \<and>
    st_parseDesignIntent st intent = Inr (Inr design) \<and>
    st_generateFreeCADCode st design = Inr scr \<and>
    st_validateScriptSafety st scr = Inr True \<and>
    st_executeScript st scr w = (Inl e, w') \<longrightarrow>
      processDesignIntentWith st intent w = (errorPayload e, w')) \<and>
   (st_needsClarification st intent = Inr False \<and>
    st_parseDesignIntent st intent = Inr (Inr design) \<and>
    st_generateFreeCADCode st design = Inr scr \<and>
    st_validateScriptSafety st scr = Inr True \<and>
    st_executeScript st scr w = (Inr res, w') \<and>
    st_generateUserFeedback st res = Inl e \<longrightarrow>
      processDesignIntentWith st intent w = (errorPayload e, w')) \<and>
   status (feedback (errorPayload e)) = StError \<and>
   suggestedActions (feedback (errorPayload e))
     = Some [\<lparr>action_type = Regenerate, description = ''Try again with a simpler design''\<rparr>] \<and>
   structuredDesign (errorPayload e) = None \<and>
   script (errorPayload e) = None \<and>
   executionResult (errorPayload e) = None \<and>
   (st_needsClarification st intent = Inr True \<and>
    st_generateClarificationQuestions st intent = Inr questions \<longrightarrow>
      processDesignIntentWith st intent w = (clarificationPayload questions, w) \<and>
      structuredDesign (clarificationPayload questions) = None \<and>
      script (clarificationPayload questions) = None \<and>
      executionResult (clarificationPayload questions) = None) \<and>
   (st_needsClarification st intent = Inr False \<and>
    st_parseDesignIntent st intent = Inr (Inl fb) \<longrightarrow>
      processDesignIntentWith st intent w =
        (\<lparr>structuredDesign = None, script = None, executionResult = None, feedback = fb\<rparr>, w)) \<and>
   (st_needsClarification st intent = Inr False \<and>
    st_parseDesignIntent st intent = Inr (Inr design) \<and>
    st_generateFreeCADCode st design = Inr scr \<and>
    st_validateScriptSafety st scr = Inr False \<longrightarrow>
      processDesignIntentWith st intent w = (unsafePayload design scr, w) \<and>
      structuredDesign (unsafePayload design scr) = Some design \<and>
      script (unsafePayload design scr) = Some scr \<and>
      executionResult (unsafePayload design scr) = None) \<and>
   (st_needsClarification st intent = Inr False \<and>
    st_parseDesignIntent st intent = Inr (Inr design) \<and>
    st_generateFreeCADCode st design = Inr scr \<and>
    st_validateScriptSafety st scr = Inr True \<and>
    st_executeScript st scr w = (Inr res, w') \<and>
    st_generateUserFeedback st res = Inr fb \<longrightarrow>
      processDesignIntentWith st intent w =
        (\<lparr>structuredDesign = Some design, script = Some scr, executionResult = Some res,
          feedback = fb\<rparr>, w')) \<and>
   (executionResult (fst (processDesignIntentWith st intent w)) \<noteq> None
      \<longrightarrow> script (fst (processDesignIntentWith st intent w)) \<noteq> None) \<and>
   (script (fst (processDesignIntentWith st intent w)) \<noteq> None
      \<longleftrightarrow> structuredDesign (fst (processDesignIntentWith st intent w)) \<noteq> None) \<and>
   processDesignIntent ns rnd now intent eng
     = processDesignIntentWith (repositoryStages ns rnd now) intent eng"
  by (intro conjI)
     (simp_all add: errorPayload_shape processDesignIntent_def processDesignIntentWith_def
        tryBlock_def clarificationPayload_def unsafePayload_def
        split: sum.splits bool.splits prod.splits)

theorem pipeline_always_feedback_witness:
  "processDesignIntentWith throwingStages cmCubeIntent []
     = (errorPayload (ErrorObject ''stack overflow''), []) \<and>
   details (feedback (errorPayload (ErrorObject ''stack overflow''))) = Some ''stack overflow'' \<and>
   structuredDesign (fst (processDesignIntent integerText ''0.k3j9x2m1q8z''
                            ''2024-05-01T12:00:00.000Z'' cmCubeIntent [])) = Some cmCubeDesign \<and>
   script (fst (processDesignIntent integerText ''0.k3j9x2m1q8z''
                  ''2024-05-01T12:00:00.000Z'' cmCubeIntent []))
     = Some (generateFreeCADCode integerText cmCubeDesign) \<and>
   executionResult (fst (processDesignIntent integerText ''0.k3j9x2m1q8z''
                           ''2024-05-01T12:00:00.000Z'' cmCubeIntent []))
     = Some (fst (executeScript (generateFreeCADCode integerText cmCubeDesign) []))"
proof -
  have t1: "st_needsClarification throwingStages cmCubeIntent = Inr False"
    by (simp add: throwingStages_def repositoryStages_def cmCube_clear)
  have t2: "st_parseDesignIntent throwingStages cmCubeIntent = Inr (Inr cmCubeDesign)"
    by (simp add: throwingStages_def repositoryStages_def cmCube_parse)
  have t3: "st_generateFreeCADCode throwingStages cmCubeDesign
              = Inl (ErrorObject ''stack overflow'')"
    by (simp add: throwingStages_def)
  have a: "processDesignIntentWith throwingStages cmCubeIntent []
             = (errorPayload (ErrorObject ''stack overflow''), [])"
    using pipeline_always_feedback [where st = throwingStages and intent = cmCubeIntent
            and e = "ErrorObject ''stack overflow''" and design = cmCubeDesign and w = "[]"]
          t1 t2 t3
    by blast
  let ?st = "repositoryStages integerText ''0.k3j9x2m1q8z'' ''2024-05-01T12:00:00.000Z''"
  let ?scr = "generateFreeCADCode integerText cmCubeDesign"
  have r1: "st_needsClarification ?st cmCubeIntent = Inr False"
    by (simp add: repositoryStages_def cmCube_clear)
  have r2: "st_parseDesignIntent ?st cmCubeIntent = Inr (Inr cmCubeDesign)"
    by (simp add: repositoryStages_def cmCube_parse)
  have r3: "st_generateFreeCADCode ?st cmCubeDesign = Inr ?scr"
    by (simp add: repositoryStages_def)
  have r4: "st_validateScriptSafety ?st ?scr = Inr True"
    by (simp add: repositoryStages_def cmCube_safe)
  have r5: "st_executeScript ?st ?scr []
              = (Inr (fst (executeScript ?scr [])), snd (executeScript ?scr []))"
    by (simp add: repositoryStages_def split: prod.splits)
  have r6: "st_generateUserFeedback ?st (fst (executeScript ?scr []))
              = Inr (generateUserFeedback (fst (executeScript ?scr [])))"
    by (simp add: repositoryStages_def)
  have b: "processDesignIntent integerText ''0.k3j9x2m1q8z'' ''2024-05-01T12:00:00.000Z''
             cmCubeIntent []
           = (\<lparr>structuredDesign = Some cmCubeDesign, script = Some ?scr,
               executionResult = Some (fst (executeScript ?scr [])),
               feedback = generateUserFeedback (fst (executeScript ?scr []))\<rparr>,
              snd (executeScript ?scr []))"
    using pipeline_always_feedback [where st = ?st and intent = cmCubeIntent
            and design = cmCubeDesign and scr = ?scr and w = "[]"
            and res = "fst (executeScript ?scr [])" and w' = "snd (executeScript ?scr [])"
            and fb = "generateUserFeedback (fst (executeScript ?scr []))"
            and ns = integerText and rnd = "''0.k3j9x2m1q8z''"
            and now = "''2024-05-01T12:00:00.000Z''" and eng = "[]"]
          r1 r2 r3 r4 r5 r6
    by simp
  show ?thesis using a b by (simp add: errorPayload_def)
qed

section \<open>The clarification gate\<close>

text \<open>
  Claim C3. When the lower-cased prompt is shorter than five characters, or has no digit,
  or has none of the shape keywords, \<open>needsClarification\<close> is true and the pipeline answers
  with a clarification feedback that leaves the engine untouched. Its suggested actions are
  the questions in order: the shape question exactly when no shape keyword is present,
  then the dimension question exactly when no digit is present.
\<close>

theorem clarification_gate:
  assumes "length (toLowerCase (prompt intent)) < 5
           \<or> \<not> hasDimensions (toLowerCase (prompt intent))
           \<or> \<not> hasShapeKeyword (toLowerCase (prompt intent))"
  shows "needsClarification intent \<and>
         processDesignIntent ns rnd now intent eng =
           (\<lparr>structuredDesign = None, script = None, executionResult = None,
             feedback =
               \<lparr>status = StClarification,
                message = ''Your design intent needs more details.'',
                details = Some ''Please provide additional information to create your model.'',
                suggestedActions =
                  Some (map (\<lambda>question. \<lparr>action_type = Clarify, description = question\<rparr>)
                          ((if hasShapeKeyword (toLowerCase (prompt intent)) then []
                            else [''What shape would you like to create?''])
                           @ (if hasDimensions (toLowerCase (prompt intent)) then []
                              else [''What dimensions should the shape have?''])))\<rparr>\<rparr>, eng)"
proof -
  have n: "needsClarification intent"
    using assms by (auto simp: needsClarification_def Let_def)
  have q: "generateClarificationQuestions intent =
             (if hasShapeKeyword (toLowerCase (prompt intent)) then []
              else [''What shape would you like to create?''])
             @ (if hasDimensions (toLowerCase (prompt intent)) then []
                else [''What dimensions should the shape have?''])"
    by (simp add: generateClarificationQuestions_def Let_def)
  have "processDesignIntent ns rnd now intent eng
          = (clarificationPayload (generateClarificationQuestions intent), eng)"
    using n
    by (simp add: processDesignIntent_def processDesignIntentWith_def tryBlock_def
          repository_needs)
  then show ?thesis
    using n q by (simp add: clarificationPayload_def)
qed

theorem clarification_gate_witness:
  "map description (the (suggestedActions (feedback (fst
      (processDesignIntent integerText ''0.k3j9x2m1q8z'' ''t'' shortIntent []))))) = [] \<and>
   map description (the (suggestedActions (feedback (fst
      (processDesignIntent integerText ''0.k3j9x2m1q8z'' ''t'' vagueIntent [])))))
     = [''What shape would you like to create?'', ''What dimensions should the shape have?''] \<and>
   map description (the (suggestedActions (feedback (fst
      (processDesignIntent integerText ''0.k3j9x2m1q8z'' ''t'' unsizedIntent [])))))
     = [''What dimensions should the shape have?''] \<and>
   map description (the (suggestedActions (feedback (fst
      (processDesignIntent integerText ''0.k3j9x2m1q8z'' ''t'' shapelessIntent [])))))
     = [''What shape would you like to create?''] \<and>
   status (feedback (fst (processDesignIntent integerText ''0.k3j9x2m1q8z'' ''t'' shortIntent [])))
     = StClarification \<and>
   needsClarification shortIntent \<and> needsClarification vagueIntent \<and>
   needsClarification unsizedIntent \<and> needsClarification shapelessIntent"
  using clarification_gate [of shortIntent integerText "''0.k3j9x2m1q8z''" "''t''" "[]"]
        clarification_gate [of vagueIntent integerText "''0.k3j9x2m1q8z''" "''t''" "[]"]
        clarification_gate [of unsizedIntent integerText "''0.k3j9x2m1q8z''" "''t''" "[]"]
        clarification_gate [of shapelessIntent integerText "''0.k3j9x2m1q8z''" "''t''" "[]"]
        example_prompts
  by simp

section \<open>The design generator\<close>



text \<open>
  Claim C5. For a union, a difference or an intersection whose target ids are \<open>a\<close>, \<open>b\<close> and
  possibly more, the generated code is three lines of which the first is the only
  combinator call: \<^verbatim>\<open>fuse\<close>, \<^verbatim>\<open>cut\<close> or \<^verbatim>\<open>common\<close> on \<open>a\<close>, with all the remaining ids
  together, separated by commas, as the argument of that one call. The other two lines
  bind the result into a document object.
\<close>

theorem boolean_operation_single_call:
  assumes "targetIds operation = a # b # rest"
  shows "(op_type operation = OpUnion \<longrightarrow>
            generateOperationCode ns operation =
              [resultNameOf operation @ '' = '' @ a @ ''.fuse('' @ join '', '' (b # rest) @ '')'',
               ''result_obj = doc.addObject('' @ dquote @ ''Part::Feature'' @ dquote @ '', ''
                 @ dquote @ ''Union'' @ dquote @ '')'',
               ''result_obj.Shape = '' @ resultNameOf operation]) \<and>
         (op_type operation = OpDifference \<longrightarrow>
            generateOperationCode ns operation =
              [resultNameOf operation @ '' = '' @ a @ ''.cut('' @ join '', '' (b # rest) @ '')'',
               ''result_obj = doc.addObject('' @ dquote @ ''Part::Feature'' @ dquote @ '', ''
                 @ dquote @ ''Difference'' @ dquote @ '')'',
               ''result_obj.Shape = '' @ resultNameOf operation]) \<and>
         (op_type operation = OpIntersection \<longrightarrow>
            generateOperationCode ns operation =
              [resultNameOf operation @ '' = '' @ a @ ''.common('' @ join '', '' (b # rest) @ '')'',
               ''result_obj = doc.addObject('' @ dquote @ ''Part::Feature'' @ dquote @ '', ''
                 @ dquote @ ''Intersection'' @ dquote @ '')'',
               ''result_obj.Shape = '' @ resultNameOf operation])"
  using assms
  by (simp add: generateOperationCode_lines operationCall_def firstTarget_def
        capitalize_operation_names)

theorem boolean_operation_single_call_witness:
  "generateOperationCode integerText fuseThree =
     [''result_union_a_b_c = a.fuse(b, c)'',
      ''result_obj = doc.addObject('' @ dquote @ ''Part::Feature'' @ dquote @ '', ''
        @ dquote @ ''Union'' @ dquote @ '')'',
      ''result_obj.Shape = result_union_a_b_c'']"
proof -
  have t: "targetIds fuseThree = ''a'' # ''b'' # [''c'']" by (simp add: fuseThree_def)
  have u: "op_type fuseThree = OpUnion" by (simp add: fuseThree_def)
  have n: "resultNameOf fuseThree = ''result_union_a_b_c''"
    by (simp add: resultNameOf_def fuseThree_def)
  show ?thesis
    using boolean_operation_single_call [OF t, of integerText] u n by simp
qed

text \<open>
  Claim C6. For a primitive that has a rotation, the generated lines are: the creation
  statement, the translation when a position is present, then exactly three rotations
  about the origin, the first about the X axis by the rotation's x, the second about the
  Y axis by its y, the third about the Z axis by its z, whatever these values are, and
  then the two lines that bind the shape into the document.
\<close>

theorem rotation_order_fixed:
  assumes "rotation p = Some rot"
  shows "generatePrimitiveCode ns p =
     makeCall ns (prim_id p) (prim_type p) (prim_parameters p)
     # (case position p of None \<Rightarrow> [] | Some pos \<Rightarrow> [translateLine ns (prim_id p) pos])
     @ [prim_id p @ ''.rotate(Base.Vector(0,0,0), Base.Vector(1,0,0), '' @ ns (rot_x rot) @ '')'',
        prim_id p @ ''.rotate(Base.Vector(0,0,0), Base.Vector(0,1,0), '' @ ns (rot_y rot) @ '')'',
        prim_id p @ ''.rotate(Base.Vector(0,0,0), Base.Vector(0,0,1), '' @ ns (rot_z rot) @ '')'',
        ''shape_obj = doc.addObject('' @ dquote @ ''Part::Feature'' @ dquote @ '', '' @ dquote
            @ capitalize (primitiveTypeName (prim_type p)) @ dquote @ '')'',
        ''shape_obj.Shape = '' @ prim_id p]"
  using assms by (simp add: generatePrimitiveCode_lines rotateLines_def)

theorem rotation_order_fixed_witness:
  "generatePrimitiveCode integerText turnedBox =
     [''box1 = Part.makeBox(2, 3, 4)'',
      ''box1.translate(Base.Vector(1, 0, 0))'',
      ''box1.rotate(Base.Vector(0,0,0), Base.Vector(1,0,0), 0)'',
      ''box1.rotate(Base.Vector(0,0,0), Base.Vector(0,1,0), 90)'',
      ''box1.rotate(Base.Vector(0,0,0), Base.Vector(0,0,1), 0)'',
      ''shape_obj = doc.addObject('' @ dquote @ ''Part::Feature'' @ dquote @ '', '' @ dquote
         @ ''Cube'' @ dquote @ '')'',
      ''shape_obj.Shape = box1'']"
proof -
  have r: "rotation turnedBox = Some \<lparr>rot_x = 0, rot_y = 90, rot_z = 0\<rparr>"
    by (simp add: turnedBox_def)
  show ?thesis
    using rotation_order_fixed [OF r, of integerText]
    by (simp add: turnedBox_def translateLine_def integerText_examples
          capitalize_operation_names)
qed

text \<open>
  Claim C10. A fillet whose radius is given as 0 produces the same code as a fillet with
  the same targets and no radius at all: the call carries the default 1. The same holds
  for a chamfer and its distance.
\<close>

theorem explicit_zero_takes_default:
  "(op_type operation = OpFillet \<and>
    optParam (op_parameters operation) ''radius'' = Some (JNum 0) \<and>
    op_type bare = OpFillet \<and> targetIds bare = targetIds operation \<and>
    optParam (op_parameters bare) ''radius'' = None \<longrightarrow>
      generateOperationCode ns operation = generateOperationCode ns bare \<and>
      hd (generateOperationCode ns operation)
        = resultNameOf operation @ '' = '' @ firstTarget (targetIds operation) @ ''.makeFillet(''
            @ ns 1 @ '', '' @ firstTarget (targetIds operation) @ ''.Edges)'') \<and>
   (op_type operation = OpChamfer \<and>
    optParam (op_parameters operation) ''distance'' = Some (JNum 0) \<and>
    op_type bare = OpChamfer \<and> targetIds bare = targetIds operation \<and>
    optParam (op_parameters bare) ''distance'' = None \<longrightarrow>
      generateOperationCode ns operation = generateOperationCode ns bare \<and>
      hd (generateOperationCode ns operation)
        = resultNameOf operation @ '' = '' @ firstTarget (targetIds operation) @ ''.makeChamfer(''
            @ ns 1 @ '', '' @ firstTarget (targetIds operation) @ ''.Edges)'')"
  by (simp add: generateOperationCode_lines operationCall_def resultNameOf_def)

theorem explicit_zero_takes_default_witness:
  "generateOperationCode integerText zeroFillet = generateOperationCode integerText bareFillet \<and>
   hd (generateOperationCode integerText zeroFillet)
     = ''result_fillet_edge1 = edge1.makeFillet(1, edge1.Edges)'' \<and>
   generateOperationCode integerText zeroChamfer = generateOperationCode integerText bareChamfer \<and>
   hd (generateOperationCode integerText zeroChamfer)
     = ''result_chamfer_edge1 = edge1.makeChamfer(1, edge1.Edges)''"
proof -
  have f: "op_type zeroFillet = OpFillet \<and>
           optParam (op_parameters zeroFillet) ''radius'' = Some (JNum 0) \<and>
           op_type bareFillet = OpFillet \<and> targetIds bareFillet = targetIds zeroFillet \<and>
           optParam (op_parameters bareFillet) ''radius'' = None"
    by (simp add: zeroFillet_def bareFillet_def optParam_def)
  have c: "op_type zeroChamfer = OpChamfer \<and>
           optParam (op_parameters zeroChamfer) ''distance'' = Some (JNum 0) \<and>
           op_type bareChamfer = OpChamfer \<and> targetIds bareChamfer = targetIds zeroChamfer \<and>
           optParam (op_parameters bareChamfer) ''distance'' = None"
    by (simp add: zeroChamfer_def bareChamfer_def optParam_def)
  have n: "resultNameOf zeroFillet = ''result_fillet_edge1''"
          "resultNameOf zeroChamfer = ''result_chamfer_edge1''"
          "firstTarget (targetIds zeroFillet) = ''edge1''"
          "firstTarget (targetIds zeroChamfer) = ''edge1''"
    by (simp_all add: resultNameOf_def zeroFillet_def zeroChamfer_def firstTarget_def)
  have zf: "generateOperationCode integerText zeroFillet
              = generateOperationCode integerText bareFillet"
    and hf: "hd (generateOperationCode integerText zeroFillet)
              = resultNameOf zeroFillet @ '' = '' @ firstTarget (targetIds zeroFillet)
                  @ ''.makeFillet('' @ integerText 1 @ '', ''
                  @ firstTarget (targetIds zeroFillet) @ ''.Edges)''"
    using explicit_zero_takes_default [of zeroFillet bareFillet integerText] f by blast+
  have zc: "generateOperationCode integerText zeroChamfer
              = generateOperationCode integerText bareChamfer"
    and hc: "hd (generateOperationCode integerText zeroChamfer)
              = resultNameOf zeroChamfer @ '' = '' @ firstTarget (targetIds zeroChamfer)
                  @ ''.makeChamfer('' @ integerText 1 @ '', ''
                  @ firstTarget (targetIds zeroChamfer) @ ''.Edges)''"
    using explicit_zero_takes_default [of zeroChamfer bareChamfer integerText] c by blast+
  have hf': "hd (generateOperationCode integerText zeroFillet)
               = ''result_fillet_edge1 = edge1.makeFillet(1, edge1.Edges)''"
    using hf by (simp add: n integerText_examples)
  have hc': "hd (generateOperationCode integerText zeroChamfer)
               = ''result_chamfer_edge1 = edge1.makeChamfer(1, edge1.Edges)''"
    using hc by (simp add: n integerText_examples)
  show ?thesis
    using zf zc hf' hc' by blast
qed

section \<open>The intent parser\<close>



section \<open>The feedback collector\<close>

text \<open>
  Claim C7. \<open>generateUserFeedback\<close> maps a successful result without warnings (none
  recorded, or an empty list) to status success, the message that the model was created
  successfully, and the single action \<^verbatim>\<open>accept\<close>; a successful result with at least one
  warning to status success and the actions \<^verbatim>\<open>accept\<close>, \<^verbatim>\<open>modify\<close> in this order; a failed
  result to status error and the actions \<^verbatim>\<open>regenerate\<close>, \<^verbatim>\<open>modify\<close>, \<^verbatim>\<open>clarify\<close> in this
  order.
\<close>

theorem generateUserFeedback_mapping:
  "(success r \<and> (warnings r = None \<or> warnings r = Some []) \<longrightarrow>
      status (generateUserFeedback r) = StSuccess \<and>
      message (generateUserFeedback r) = ''Model created successfully!'' \<and>
      suggestedActions (generateUserFeedback r) =
        Some [\<lparr>action_type = Accept, description = ''Use this model''\<rparr>]) \<and>
   (success r \<and> (\<exists>w ws. warnings r = Some (w # ws)) \<longrightarrow>
      status (generateUserFeedback r) = StSuccess \<and>
      suggestedActions (generateUserFeedback r) =
        Some [\<lparr>action_type = Accept, description = ''Use this model''\<rparr>,
              \<lparr>action_type = Modify, description = ''Modify design to address warnings''\<rparr>]) \<and>
   (\<not> success r \<longrightarrow>
      status (generateUserFeedback r) = StError \<and>
      suggestedActions (generateUserFeedback r) =
        Some [\<lparr>action_type = Regenerate, description = ''Try again with simplified geometry''\<rparr>,
              \<lparr>action_type = Modify, description = ''Modify design parameters''\<rparr>,
              \<lparr>action_type = Clarify, description = ''Provide more details about the design''\<rparr>])"
  by (auto simp: generateUserFeedback_def getSuggestedActionsForSuccess_def
        getSuggestedActionsForFailure_def hasWarnings_def)

theorem generateUserFeedback_mapping_witness:
  "map action_type (the (suggestedActions (generateUserFeedback cleanRun))) = [Accept] \<and>
   map action_type (the (suggestedActions (generateUserFeedback warnedRun))) = [Accept, Modify] \<and>
   map action_type (the (suggestedActions (generateUserFeedback failedRun)))
     = [Regenerate, Modify, Clarify] \<and>
   status (generateUserFeedback cleanRun) = StSuccess \<and>
   status (generateUserFeedback warnedRun) = StSuccess \<and>
   status (generateUserFeedback failedRun) = StError"
proof -
  have c: "success cleanRun \<and> (warnings cleanRun = None \<or> warnings cleanRun = Some [])"
    by (simp add: cleanRun_def)
  have w: "success warnedRun \<and> (\<exists>w ws. warnings warnedRun = Some (w # ws))"
    by (simp add: warnedRun_def)
  have f: "\<not> success failedRun"
    by (simp add: failedRun_def)
  show ?thesis
    using generateUserFeedback_mapping [of cleanRun] generateUserFeedback_mapping [of warnedRun]
          generateUserFeedback_mapping [of failedRun] c w f
    by simp
qed

text \<open>
  Claim C8. \<open>formatErrorMessage\<close> is a total function on strings, formatting twice gives
  the same text as formatting once, and a message in which neither known engine error
  text occurs comes back unchanged.
\<close>

theorem formatErrorMessage_idempotent:
  "formatErrorMessage (formatErrorMessage m) = formatErrorMessage m \<and>
   ((\<forall>pre post. m \<noteq> pre @ ''TopoDS_Shape is null'' @ post) \<and>
    (\<forall>pre post. m \<noteq> pre @ ''out of bounds'' @ post) \<longrightarrow> formatErrorMessage m = m)"
proof
  show "formatErrorMessage (formatErrorMessage m) = formatErrorMessage m"
    using friendly_shape_clean friendly_range_clean
    by (simp add: formatErrorMessage_def)
next
  show "(\<forall>pre post. m \<noteq> pre @ ''TopoDS_Shape is null'' @ post) \<and>
    (\<forall>pre post. m \<noteq> pre @ ''out of bounds'' @ post) \<longrightarrow> formatErrorMessage m = m"
    by (simp add: formatErrorMessage_def includesStr_iff)
qed

theorem formatErrorMessage_idempotent_witness:
  "formatErrorMessage (formatErrorMessage ''index out of bounds'')
     = formatErrorMessage ''index out of bounds''
   \<and> formatErrorMessage ''disk full'' = ''disk full''"
proof -
  have a: "\<not> includesStr ''disk full'' ''TopoDS_Shape is null''" by code_simp
  have b: "\<not> includesStr ''disk full'' ''out of bounds''" by code_simp
  have h: "(\<forall>pre post. ''disk full'' \<noteq> pre @ ''TopoDS_Shape is null'' @ post) \<and>
           (\<forall>pre post. ''disk full'' \<noteq> pre @ ''out of bounds'' @ post)"
    using a b unfolding includesStr_iff by blast
  show ?thesis
    using formatErrorMessage_idempotent [of "''index out of bounds''"]
          formatErrorMessage_idempotent [of "''disk full''"] h
    by blast
qed

end
